theory Spec2Isabelle
  imports Main
begin

section \<open>JavaScript values\<close>

text \<open>
  The request layer works on parsed JSON and on the values it builds from it. A value is
  one of the JavaScript shapes below. \<open>Undefined\<close> is what reading an absent property
  gives; \<open>JSON.parse\<close> never produces it. Numbers are integers here: the code only tests
  a number for being zero (truthiness) or for being \<open>404\<close>, and otherwise hands it on
  unchanged. An object is its list of properties, read by key.
\<close>

datatype jsval =
    Undefined
  | Null
  | Bool bool
  | Num int
  | Str string
  | Arr "jsval list"
  | Obj "(string \<times> jsval) list"

text \<open>What \<open>if (v)\<close>, \<open>!v\<close>, \<open>v ? a : b\<close> and \<open>v || d\<close> test.\<close>

fun truthy :: "jsval \<Rightarrow> bool" where
  "truthy Undefined = False"
| "truthy Null = False"
| "truthy (Bool b) = b"
| "truthy (Num n) = (n \<noteq> 0)"
| "truthy (Str s) = (s \<noteq> [])"
| "truthy (Arr xs) = True"
| "truthy (Obj kvs) = True"

text \<open>What \<open>v ?? d\<close> and \<open>v?.k\<close> test.\<close>

fun nullish :: "jsval \<Rightarrow> bool" where
  "nullish Undefined = True"
| "nullish Null = True"
| "nullish v = False"

text \<open>
  A thrown value is an instance of \<open>Error\<close> (with its \<open>name\<close> and \<open>message\<close>: a
  \<open>TypeError\<close>, a \<open>SyntaxError\<close>, the \<open>DOMException\<close> of an abort) or any other value.
\<close>

datatype thrown =
    JsError (exn_name: string) (exn_message: string)
  | NonError jsval

text \<open>
  \<open>v.k\<close>: reading a property of \<open>null\<close> or \<open>undefined\<close> throws a \<open>TypeError\<close> (the
  message is the one of V8). The keys this code reads (\<open>data\<close>, \<open>meta\<close>, \<open>error\<close>,
  \<open>status\<close>, \<open>name\<close>, \<open>message\<close>) are no properties of a boolean, a number, a string
  or an array: reading them there gives \<open>undefined\<close>.
\<close>

definition cannot_read :: "string \<Rightarrow> string \<Rightarrow> thrown" where
  "cannot_read what k =
     JsError ''TypeError''
       (''Cannot read properties of '' @ what @ '' (reading '' @ [CHR 0x27] @ k @ [CHR 0x27] @ '')'')"

fun lookup :: "(string \<times> jsval) list \<Rightarrow> string \<Rightarrow> jsval" where
  "lookup [] k = Undefined"
| "lookup ((k', v) # kvs) k = (if k' = k then v else lookup kvs k)"

fun member_of :: "jsval \<Rightarrow> string \<Rightarrow> thrown + jsval" where
  "member_of Undefined k = Inl (cannot_read ''undefined'' k)"
| "member_of Null k = Inl (cannot_read ''null'' k)"
| "member_of (Obj kvs) k = Inr (lookup kvs k)"
| "member_of v k = Inr Undefined"

text \<open>\<open>v?.k\<close>: \<open>undefined\<close> on \<open>null\<close> and \<open>undefined\<close>, the property otherwise.\<close>

fun opt_member :: "jsval \<Rightarrow> string \<Rightarrow> jsval" where
  "opt_member (Obj kvs) k = lookup kvs k"
| "opt_member v k = Undefined"

text \<open>\<open>v ?? d\<close> and \<open>v || d\<close>.\<close>

definition coalesce :: "jsval \<Rightarrow> jsval \<Rightarrow> jsval" where
  "coalesce v d = (if nullish v then d else v)"

definition or_else :: "jsval \<Rightarrow> jsval \<Rightarrow> jsval" where
  "or_else v d = (if truthy v then v else d)"

section \<open>The transport\<close>

datatype HTTPMethod = GET | POST | PUT | PATCH | DELETE

text \<open>
  \<open>ApiOptions\<close>: an absent \<open>payload\<close> is \<open>Undefined\<close>, an absent \<open>timeoutMs\<close> or
  \<open>authToken\<close> is \<open>None\<close>. \<open>timeoutMs\<close> is any whole number of milliseconds, also
  zero or negative.
\<close>

record ApiOptions =
  "method" :: HTTPMethod
  payload :: jsval
  timeoutMs :: "int option"
  authToken :: "string option"

text \<open>
  What \<open>fetch\<close> is given (the abort signal apart, which \<open>apiWithTimeout\<close> adds itself).
  The body is the JSON text of a value, kept as that value; \<open>JSON.stringify\<close> does not
  throw on the values of \<open>jsval\<close>.
\<close>

datatype body = JSON_stringify jsval

record RequestInit =
  init_method :: HTTPMethod
  init_headers :: "(string \<times> string) list"
  init_body :: "body option"

text \<open>
  A \<open>Response\<close>: its status line, and what \<open>response.json()\<close> gives when it is called
  (the parsed body, or the exception of a body that is no JSON). \<open>response.ok\<close> is the
  status being in the range 200 to 299.
\<close>

record Response =
  r_status :: int
  r_statusText :: string
  r_json :: "thrown + jsval"

definition ok :: "Response \<Rightarrow> bool" where
  "ok r = (200 \<le> r_status r \<and> r_status r \<le> 299)"

text \<open>
  The network answers a request by settling after some milliseconds, with a response or
  with a rejection. \<open>fetch\<close> is a parameter of the model: every theorem holds for any
  network.
\<close>

datatype settled = Resolved Response | Rejected thrown

record network_call =
  latency :: nat
  outcome :: settled

type_synonym network = "string \<Rightarrow> RequestInit \<Rightarrow> network_call"

text \<open>
  \<open>controller.abort()\<close> with no reason makes the pending \<open>fetch\<close> reject with this
  exception.
\<close>

definition AbortError :: thrown where
  "AbortError = JsError ''AbortError'' ''This operation was aborted''"

text \<open>
  The delay \<open>setTimeout\<close> really waits, as Node.js sets it: a delay below 1 or above
  \<open>2147483647\<close> (the largest signed 32-bit integer) becomes 1 millisecond.
\<close>

definition setTimeout_delay :: "int \<Rightarrow> nat" where
  "setTimeout_delay ms = (if ms < 1 \<or> 2147483647 < ms then 1 else nat ms)"

text \<open>
  \<open>apiWithTimeout\<close>: the timer is set before \<open>fetch\<close> is called. The call's own outcome
  is returned when the call settles before the timer fires. Otherwise the timer aborts
  the call, also when both fall on the same millisecond: the timer was queued first. The
  \<open>finally\<close> block clears the timer and changes no result.
\<close>

definition apiWithTimeout :: "network \<Rightarrow> string \<Rightarrow> RequestInit \<Rightarrow> int \<Rightarrow> settled" where
  "apiWithTimeout fetch input init ms =
     (let call = fetch input init
      in if latency call < setTimeout_delay ms then outcome call else Rejected AbortError)"

section \<open>The response envelope\<close>

text \<open>
  Modelled from the spec: the type \<open>TStrapiResponse\<close> is declared in \<open>@/types\<close>, which
  is not among the sources. The specification gives it the fields \<open>success\<close>, \<open>status\<close>,
  \<open>data\<close>, \<open>meta\<close> and \<open>error\<close>; the code builds it with these fields and reads each of
  \<open>data\<close> and \<open>error\<close> as optional. A field that is absent is \<open>Undefined\<close>. The \<open>error\<close>
  is a value, not a record of three fields: \<open>apiRequest\<close> passes on as \<open>error\<close> whatever
  truthy value the upstream body holds there.
\<close>

record envelope =
  data :: jsval
  meta :: jsval
  error :: jsval
  success :: bool
  status :: int

definition error_object :: "int \<Rightarrow> jsval \<Rightarrow> jsval \<Rightarrow> jsval" where
  "error_object s n m = Obj [(''status'', Num s), (''name'', n), (''message'', m)]"

definition success_envelope :: "jsval \<Rightarrow> jsval \<Rightarrow> int \<Rightarrow> envelope" where
  "success_envelope d m s =
     \<lparr>data = d, meta = m, error = Undefined, success = True, status = s\<rparr>"

definition failure_envelope :: "jsval \<Rightarrow> int \<Rightarrow> envelope" where
  "failure_envelope e s =
     \<lparr>data = Undefined, meta = Undefined, error = e, success = False, status = s\<rparr>"

section \<open>apiRequest\<close>

definition headers_of :: "string option \<Rightarrow> (string \<times> string) list" where
  "headers_of tok =
     (''Content-Type'', ''application/json'') #
     (case tok of
        None \<Rightarrow> []
      | Some t \<Rightarrow> if t = [] then [] else [(''Authorization'', ''Bearer '' @ t)])"

definition request_init :: "ApiOptions \<Rightarrow> RequestInit" where
  "request_init options =
     \<lparr>init_method = method options,
      init_headers = headers_of (authToken options),
      init_body =
        (if method options = GET \<or> method options = DELETE then None
         else Some (JSON_stringify (coalesce (payload options) (Obj []))))\<rparr>"

text \<open>The default of the destructuring: \<open>timeoutMs = 8000\<close>.\<close>

definition timeout_of :: "ApiOptions \<Rightarrow> int" where
  "timeout_of options = (case timeoutMs options of None \<Rightarrow> 8000 | Some t \<Rightarrow> t)"

text \<open>
  The body of the \<open>try\<close> block once the response is there. \<open>Inl\<close> is an exception
  thrown inside the block. The \<open>console.error\<close> calls write to the log and change no
  result; they are left out.
\<close>

definition on_response :: "HTTPMethod \<Rightarrow> Response \<Rightarrow> thrown + envelope" where
  "on_response m response =
     (if m = DELETE then
        Inr (if ok response then success_envelope (Bool True) Undefined (r_status response)
             else failure_envelope
                    (error_object (r_status response) (Str ''Error'')
                       (Str ''Failed to delete resource''))
                    (r_status response))
      else
        case r_json response of
          Inl e \<Rightarrow> Inl e
        | Inr d \<Rightarrow>
            if \<not> ok response then
              (case member_of d ''error'' of
                 Inl e \<Rightarrow> Inl e
               | Inr derr \<Rightarrow>
                   if truthy derr then Inr (failure_envelope derr (r_status response))
                   else
                     Inr (failure_envelope
                       (error_object (r_status response)
                          (coalesce (opt_member (opt_member d ''error'') ''name'') (Str ''Error''))
                          (coalesce (opt_member (opt_member d ''error'') ''message'')
                             (or_else (Str (r_statusText response)) (Str ''An error occurred''))))
                       (r_status response)))
            else
              (case member_of d ''data'' of
                 Inl e \<Rightarrow> Inl e
               | Inr ddata \<Rightarrow>
                   (case member_of d ''meta'' of
                      Inl e \<Rightarrow> Inl e
                    | Inr dmeta \<Rightarrow>
                        Inr (success_envelope
                               (if truthy ddata then ddata else d)
                               (if truthy dmeta then dmeta else Undefined)
                               (r_status response)))))"

definition apiRequest_try :: "network \<Rightarrow> string \<Rightarrow> ApiOptions \<Rightarrow> thrown + envelope" where
  "apiRequest_try fetch url options =
     (case apiWithTimeout fetch url (request_init options) (timeout_of options) of
        Rejected e \<Rightarrow> Inl e
      | Resolved response \<Rightarrow> on_response (method options) response)"

text \<open>
  The \<open>catch\<close> block. \<open>(error as Error).name\<close> reads a property of whatever was thrown,
  which throws in turn when that is \<open>null\<close> or \<open>undefined\<close>.
\<close>

fun name_of :: "thrown \<Rightarrow> thrown + jsval" where
  "name_of (JsError n m) = Inr (Str n)"
| "name_of (NonError v) = member_of v ''name''"

fun message_of :: "thrown \<Rightarrow> string" where
  "message_of (JsError n m) = m"
| "message_of (NonError v) = ''Something went wrong''"

definition apiRequest_catch :: "thrown \<Rightarrow> thrown + envelope" where
  "apiRequest_catch e =
     (case name_of e of
        Inl e' \<Rightarrow> Inl e'
      | Inr n \<Rightarrow>
          if n = Str ''AbortError'' then
            Inr (failure_envelope
                   (error_object 408 (Str ''TimeoutError'')
                      (Str ''The request timed out. Please try again.''))
                   408)
          else
            Inr (failure_envelope
                   (error_object 500 (Str ''NetworkError'') (Str (message_of e)))
                   500))"

definition apiRequest :: "network \<Rightarrow> string \<Rightarrow> ApiOptions \<Rightarrow> thrown + envelope" where
  "apiRequest fetch url options =
     (case apiRequest_try fetch url options of
        Inr env \<Rightarrow> Inr env
      | Inl e \<Rightarrow> apiRequest_catch e)"

section \<open>handleApiError and validateApiResponse\<close>

text \<open>
  \<open>String(v)\<close>, which \<open>new Error(v)\<close> applies to its argument unless that is
  \<open>undefined\<close> (the message is then empty). A number prints in decimal; an array prints
  its elements separated by commas, \<open>null\<close> and \<open>undefined\<close> elements as nothing. This
  is exact on strings, the declared type of \<open>error.message\<close>, on booleans, and on whole
  numbers below \<open>10^21\<close>; JavaScript prints larger numbers with an exponent, and throws
  a \<open>TypeError\<close> on an object that has a \<open>toString\<close> key of its own.
\<close>

fun digits :: "nat \<Rightarrow> string" where
  "digits n =
     (if n < 10 then [''0123456789'' ! n]
      else digits (n div 10) @ [''0123456789'' ! (n mod 10)])"

fun join :: "string \<Rightarrow> string list \<Rightarrow> string" where
  "join sep [] = []"
| "join sep [x] = x"
| "join sep (x # y # ys) = x @ sep @ join sep (y # ys)"

fun to_string :: "jsval \<Rightarrow> string" where
  "to_string Undefined = ''undefined''"
| "to_string Null = ''null''"
| "to_string (Bool b) = (if b then ''true'' else ''false'')"
| "to_string (Num n) = (if n < 0 then ''-'' @ digits (nat (- n)) else digits (nat n))"
| "to_string (Str s) = s"
| "to_string (Arr xs) = join '','' (map (\<lambda>x. if nullish x then [] else to_string x) xs)"
| "to_string (Obj kvs) = ''[object Object]''"

definition new_Error :: "jsval \<Rightarrow> thrown" where
  "new_Error v = JsError ''Error'' (if v = Undefined then [] else to_string v)"

text \<open>
  How a call ends: it returns a value, it calls \<open>notFound()\<close> of \<open>next/navigation\<close> (which
  leaves the function and does not come back), or it throws.
\<close>

datatype 'a ending = Returns 'a | NotFound | Throws thrown

text \<open>The argument of type \<open>TStrapiResponse<T> | null | undefined\<close>.\<close>

datatype 'a nullable = IsNull | IsUndefined | Present 'a

text \<open>The template \<open>Failed to load ${resourceName || "resource"}\<close>.\<close>

definition failed_to_load :: "string option \<Rightarrow> string" where
  "failed_to_load resourceName =
     ''Failed to load '' @
     (case resourceName of
        None \<Rightarrow> ''resource''
      | Some n \<Rightarrow> if n = [] then ''resource'' else n)"

definition handleApiError :: "envelope nullable \<Rightarrow> string option \<Rightarrow> unit ending" where
  "handleApiError d resourceName =
     (case d of
        IsNull \<Rightarrow> Throws (new_Error (Str (failed_to_load resourceName)))
      | IsUndefined \<Rightarrow> Throws (new_Error (Str (failed_to_load resourceName)))
      | Present env \<Rightarrow>
          if opt_member (error env) ''status'' = Num 404 then NotFound
          else if \<not> success env \<or> \<not> truthy (data env) then
            Throws (new_Error
              (or_else (opt_member (error env) ''message'') (Str (failed_to_load resourceName))))
          else Returns ())"

text \<open>\<open>data!.data!\<close> is \<open>data.data\<close>: the assertions are erased.\<close>

definition validateApiResponse :: "envelope nullable \<Rightarrow> string option \<Rightarrow> jsval ending" where
  "validateApiResponse d resourceName =
     (case handleApiError d resourceName of
        Throws e \<Rightarrow> Throws e
      | NotFound \<Rightarrow> NotFound
      | Returns u \<Rightarrow>
          (case d of
             IsNull \<Rightarrow> Throws (cannot_read ''null'' ''data'')
           | IsUndefined \<Rightarrow> Throws (cannot_read ''undefined'' ''data'')
           | Present env \<Rightarrow> Returns (data env)))"

section \<open>Auxiliary definitions for the statements\<close>

text \<open>A network that answers every request in the same way.\<close>

definition always :: "network_call \<Rightarrow> network" where
  "always call input init = call"

text \<open>
  The unwrapping rule in the specification's words: the body "has a \<open>data\<close> field" when it
  is an object with that key; the envelope's \<open>data\<close> is then that field, the whole body
  otherwise.
\<close>

definition has_field :: "jsval \<Rightarrow> string \<Rightarrow> bool" where
  "has_field v k = (case v of Obj kvs \<Rightarrow> k \<in> set (map fst kvs) | _ \<Rightarrow> False)"

definition spec_data :: "jsval \<Rightarrow> jsval" where
  "spec_data d = (if has_field d ''data'' then opt_member d ''data'' else d)"

text \<open>
  The synthesized message in the specification's words: the parsed body's message field,
  else the HTTP status text, else the generic text.
\<close>

definition spec_error_message :: "jsval \<Rightarrow> string \<Rightarrow> jsval" where
  "spec_error_message d statusText =
     (if has_field d ''message'' then opt_member d ''message''
      else if statusText \<noteq> [] then Str statusText
      else Str ''An error occurred'')"


section \<open>Reading properties\<close>

lemma member_of_not_nullish: "\<not> nullish d \<Longrightarrow> member_of d k = Inr (opt_member d k)"
  by (cases d) simp_all

lemma member_of_Inr_not_nullish: "member_of d k = Inr v \<Longrightarrow> \<not> nullish d"
  by (cases d) simp_all

lemma opt_member_falsy: "\<not> truthy e \<Longrightarrow> opt_member e k = Undefined"
  by (cases e) simp_all

lemma truthy_not_nullish: "truthy v \<Longrightarrow> \<not> nullish v"
  by (cases v) simp_all

section \<open>apiRequest: responses of the verbs other than DELETE\<close>

text \<open>
  C1, as amended. For a 2xx response to a request other than DELETE whose parsed body is
  not \<open>null\<close>, the envelope is a success with the HTTP status; its \<open>data\<close> is the body's
  \<open>data\<close> field when that field is truthy, and the whole parsed body otherwise (also
  when the field is there and falsy); its \<open>meta\<close> is the body's \<open>meta\<close> field when that
  is truthy, and undefined otherwise.
\<close>

theorem apiRequest_success_unwrap:
  assumes "method options \<noteq> DELETE"
    and "apiWithTimeout fetch url (request_init options) (timeout_of options) = Resolved response"
    and "ok response"
    and "r_json response = Inr d"
    and "\<not> nullish d"
  shows "apiRequest fetch url options =
           Inr \<lparr>data = (if truthy (opt_member d ''data'') then opt_member d ''data'' else d),
                meta = (if truthy (opt_member d ''meta'') then opt_member d ''meta'' else Undefined),
                error = Undefined, success = True, status = r_status response\<rparr>"
  using assms
  by (simp add: apiRequest_def apiRequest_try_def on_response_def member_of_not_nullish
      success_envelope_def)

theorem apiRequest_success_unwrap_witness:
  "method \<lparr>method = GET, payload = Undefined, timeoutMs = None, authToken = None\<rparr> \<noteq> DELETE
   \<and> ok \<lparr>r_status = 200, r_statusText = ''OK'',
          r_json = Inr (Obj [(''data'', Obj [(''id'', Num 1), (''title'', Str ''Home'')])])\<rparr>
   \<and> \<not> nullish (Obj [(''data'', Obj [(''id'', Num 1), (''title'', Str ''Home'')])])
   \<and> apiRequest
        (always \<lparr>latency = 120, outcome = Resolved
           \<lparr>r_status = 200, r_statusText = ''OK'',
            r_json = Inr (Obj [(''data'', Obj [(''id'', Num 1), (''title'', Str ''Home'')])])\<rparr>\<rparr>)
        ''/api/home-page''
        \<lparr>method = GET, payload = Undefined, timeoutMs = None, authToken = None\<rparr>
      = Inr \<lparr>data = Obj [(''id'', Num 1), (''title'', Str ''Home'')], meta = Undefined,
             error = Undefined, success = True, status = 200\<rparr>"
  using apiRequest_success_unwrap
    [of "\<lparr>method = GET, payload = Undefined, timeoutMs = None, authToken = None\<rparr>"
        "always \<lparr>latency = 120, outcome = Resolved
           \<lparr>r_status = 200, r_statusText = ''OK'',
            r_json = Inr (Obj [(''data'', Obj [(''id'', Num 1), (''title'', Str ''Home'')])])\<rparr>\<rparr>"
        "''/api/home-page''"
        "\<lparr>r_status = 200, r_statusText = ''OK'',
          r_json = Inr (Obj [(''data'', Obj [(''id'', Num 1), (''title'', Str ''Home'')])])\<rparr>"
        "Obj [(''data'', Obj [(''id'', Num 1), (''title'', Str ''Home'')])]"]
  by (simp add: always_def apiWithTimeout_def setTimeout_delay_def timeout_of_def ok_def)

text \<open>
  C1 as stated fails: the body \<open>{"data": false}\<close> has a \<open>data\<close> field, and the envelope's
  \<open>data\<close> is the whole body, not the field's value.
\<close>

theorem apiRequest_unwrap_counterexample:
  "has_field (Obj [(''data'', Bool False)]) ''data''
   \<and> apiRequest
        (always \<lparr>latency = 120, outcome = Resolved
           \<lparr>r_status = 200, r_statusText = ''OK'',
            r_json = Inr (Obj [(''data'', Bool False)])\<rparr>\<rparr>)
        ''/api/flag''
        \<lparr>method = GET, payload = Undefined, timeoutMs = None, authToken = None\<rparr>
      = Inr \<lparr>data = Obj [(''data'', Bool False)], meta = Undefined,
             error = Undefined, success = True, status = 200\<rparr>
   \<and> Obj [(''data'', Bool False)] \<noteq> spec_data (Obj [(''data'', Bool False)])"
  by (simp add: has_field_def spec_data_def apiRequest_def apiRequest_try_def on_response_def
      always_def apiWithTimeout_def setTimeout_delay_def timeout_of_def ok_def success_envelope_def)

text \<open>
  C2. For a response outside 2xx to a request other than DELETE whose parsed body holds
  an object under \<open>error\<close>, the envelope is a failure with the HTTP status, and its
  \<open>error\<close> is that object, unchanged.
\<close>

theorem apiRequest_error_passthrough:
  assumes "method options \<noteq> DELETE"
    and "apiWithTimeout fetch url (request_init options) (timeout_of options) = Resolved response"
    and "\<not> ok response"
    and "r_json response = Inr d"
    and "member_of d ''error'' = Inr (Obj e)"
  shows "apiRequest fetch url options =
           Inr \<lparr>data = Undefined, meta = Undefined, error = Obj e,
                success = False, status = r_status response\<rparr>"
  using assms
  by (simp add: apiRequest_def apiRequest_try_def on_response_def failure_envelope_def)

theorem apiRequest_error_passthrough_witness:
  "method \<lparr>method = GET, payload = Undefined, timeoutMs = None, authToken = None\<rparr> \<noteq> DELETE
   \<and> \<not> ok \<lparr>r_status = 404, r_statusText = ''Not Found'',
            r_json = Inr (Obj [(''data'', Null), (''error'', Obj [(''status'', Num 404),
              (''name'', Str ''NotFoundError''), (''message'', Str ''not found'')])])\<rparr>
   \<and> apiRequest
        (always \<lparr>latency = 35, outcome = Resolved
           \<lparr>r_status = 404, r_statusText = ''Not Found'',
            r_json = Inr (Obj [(''data'', Null), (''error'', Obj [(''status'', Num 404),
              (''name'', Str ''NotFoundError''), (''message'', Str ''not found'')])])\<rparr>\<rparr>)
        ''/api/missing''
        \<lparr>method = GET, payload = Undefined, timeoutMs = None, authToken = None\<rparr>
      = Inr \<lparr>data = Undefined, meta = Undefined,
             error = Obj [(''status'', Num 404), (''name'', Str ''NotFoundError''),
                          (''message'', Str ''not found'')],
             success = False, status = 404\<rparr>"
  using apiRequest_error_passthrough
    [of "\<lparr>method = GET, payload = Undefined, timeoutMs = None, authToken = None\<rparr>"
        "always \<lparr>latency = 35, outcome = Resolved
           \<lparr>r_status = 404, r_statusText = ''Not Found'',
            r_json = Inr (Obj [(''data'', Null), (''error'', Obj [(''status'', Num 404),
              (''name'', Str ''NotFoundError''), (''message'', Str ''not found'')])])\<rparr>\<rparr>"
        "''/api/missing''"
        "\<lparr>r_status = 404, r_statusText = ''Not Found'',
          r_json = Inr (Obj [(''data'', Null), (''error'', Obj [(''status'', Num 404),
            (''name'', Str ''NotFoundError''), (''message'', Str ''not found'')])])\<rparr>"
        "Obj [(''data'', Null), (''error'', Obj [(''status'', Num 404),
            (''name'', Str ''NotFoundError''), (''message'', Str ''not found'')])]"
        "[(''status'', Num 404), (''name'', Str ''NotFoundError''),
          (''message'', Str ''not found'')]"]
  by (simp add: always_def apiWithTimeout_def setTimeout_delay_def timeout_of_def ok_def)

text \<open>
  C3, as amended. For a response outside 2xx to a request other than DELETE whose parsed
  body is not \<open>null\<close> and has no truthy \<open>error\<close>, the envelope is a failure with the
  HTTP status; its error has that status, the name \<open>Error\<close>, and as message the HTTP
  status text when that is not empty and \<open>An error occurred\<close> otherwise. No field of the
  parsed body enters the message.
\<close>

theorem apiRequest_error_synthesized:
  assumes "method options \<noteq> DELETE"
    and "apiWithTimeout fetch url (request_init options) (timeout_of options) = Resolved response"
    and "\<not> ok response"
    and "r_json response = Inr d"
    and "\<not> nullish d"
    and "\<not> truthy (opt_member d ''error'')"
  shows "apiRequest fetch url options =
           Inr \<lparr>data = Undefined, meta = Undefined,
                error = Obj [(''status'', Num (r_status response)),
                             (''name'', Str ''Error''),
                             (''message'',
                              Str (if r_statusText response = [] then ''An error occurred''
                                   else r_statusText response))],
                success = False, status = r_status response\<rparr>"
  using assms
  by (simp add: apiRequest_def apiRequest_try_def on_response_def member_of_not_nullish
      opt_member_falsy failure_envelope_def error_object_def coalesce_def or_else_def)

theorem apiRequest_error_synthesized_witness:
  "method \<lparr>method = POST, payload = Obj [(''title'', Str ''x'')], timeoutMs = Some 3000,
           authToken = Some ''abc''\<rparr> \<noteq> DELETE
   \<and> \<not> ok \<lparr>r_status = 502, r_statusText = [], r_json = Inr (Str ''upstream down'')\<rparr>
   \<and> \<not> nullish (Str ''upstream down'')
   \<and> \<not> truthy (opt_member (Str ''upstream down'') ''error'')
   \<and> apiRequest
        (always \<lparr>latency = 2999, outcome = Resolved
           \<lparr>r_status = 502, r_statusText = [], r_json = Inr (Str ''upstream down'')\<rparr>\<rparr>)
        ''/api/articles''
        \<lparr>method = POST, payload = Obj [(''title'', Str ''x'')], timeoutMs = Some 3000,
          authToken = Some ''abc''\<rparr>
      = Inr \<lparr>data = Undefined, meta = Undefined,
             error = Obj [(''status'', Num 502), (''name'', Str ''Error''),
                          (''message'', Str ''An error occurred'')],
             success = False, status = 502\<rparr>"
  using apiRequest_error_synthesized
    [of "\<lparr>method = POST, payload = Obj [(''title'', Str ''x'')], timeoutMs = Some 3000,
           authToken = Some ''abc''\<rparr>"
        "always \<lparr>latency = 2999, outcome = Resolved
           \<lparr>r_status = 502, r_statusText = [], r_json = Inr (Str ''upstream down'')\<rparr>\<rparr>"
        "''/api/articles''"
        "\<lparr>r_status = 502, r_statusText = [], r_json = Inr (Str ''upstream down'')\<rparr>"
        "Str ''upstream down''"]
  by (simp add: always_def apiWithTimeout_def setTimeout_delay_def timeout_of_def ok_def)

text \<open>
  C3 as stated fails: the body \<open>{"message": "Invalid credentials"}\<close> of a 400 response
  has a message field, and the envelope's message is the status text \<open>Bad Request\<close>.
\<close>

theorem apiRequest_error_message_counterexample:
  "apiRequest
     (always \<lparr>latency = 80, outcome = Resolved
        \<lparr>r_status = 400, r_statusText = ''Bad Request'',
         r_json = Inr (Obj [(''message'', Str ''Invalid credentials'')])\<rparr>\<rparr>)
     ''/api/auth/local''
     \<lparr>method = POST, payload = Obj [], timeoutMs = None, authToken = None\<rparr>
   = Inr \<lparr>data = Undefined, meta = Undefined,
          error = Obj [(''status'', Num 400), (''name'', Str ''Error''),
                       (''message'', Str ''Bad Request'')],
          success = False, status = 400\<rparr>
   \<and> has_field (Obj [(''message'', Str ''Invalid credentials'')]) ''message''
   \<and> Str ''Bad Request''
       \<noteq> spec_error_message (Obj [(''message'', Str ''Invalid credentials'')]) ''Bad Request''"
  by (simp add: spec_error_message_def has_field_def apiRequest_def apiRequest_try_def
      on_response_def always_def apiWithTimeout_def setTimeout_delay_def timeout_of_def ok_def failure_envelope_def
      error_object_def coalesce_def or_else_def)

section \<open>apiRequest: DELETE\<close>

text \<open>
  C7. A DELETE request never reads the response body: a 2xx status gives the success
  envelope with \<open>data = true\<close>, any other status the failure envelope with that status
  and the message \<open>Failed to delete resource\<close>; the same response with any other body
  (parsed or not) gives the same envelope.
\<close>

theorem apiRequest_delete:
  assumes "method options = DELETE"
    and "apiWithTimeout fetch url (request_init options) (timeout_of options) = Resolved response"
  shows "apiRequest fetch url options =
           Inr (if ok response
                then \<lparr>data = Bool True, meta = Undefined, error = Undefined,
                      success = True, status = r_status response\<rparr>
                else \<lparr>data = Undefined, meta = Undefined,
                      error = Obj [(''status'', Num (r_status response)),
                                   (''name'', Str ''Error''),
                                   (''message'', Str ''Failed to delete resource'')],
                      success = False, status = r_status response\<rparr>)
         \<and> apiRequest (always \<lparr>latency = 0, outcome = Resolved (response\<lparr>r_json := j\<rparr>)\<rparr>)
               url options
             = apiRequest fetch url options"
  using assms
  by (simp add: apiRequest_def apiRequest_try_def on_response_def always_def apiWithTimeout_def
      setTimeout_delay_def ok_def success_envelope_def failure_envelope_def error_object_def)

theorem apiRequest_delete_witness:
  "method \<lparr>method = DELETE, payload = Undefined, timeoutMs = None, authToken = Some ''t''\<rparr>
     = DELETE
   \<and> apiRequest
        (always \<lparr>latency = 40, outcome = Resolved
           \<lparr>r_status = 204, r_statusText = ''No Content'',
            r_json = Inl (JsError ''SyntaxError'' ''Unexpected end of JSON input'')\<rparr>\<rparr>)
        ''/api/articles/7''
        \<lparr>method = DELETE, payload = Undefined, timeoutMs = None, authToken = Some ''t''\<rparr>
      = Inr \<lparr>data = Bool True, meta = Undefined, error = Undefined,
             success = True, status = 204\<rparr>
   \<and> apiRequest
        (always \<lparr>latency = 0, outcome = Resolved
           \<lparr>r_status = 204, r_statusText = ''No Content'',
            r_json = Inr (Obj [(''error'', Str ''ignored'')])\<rparr>\<rparr>)
        ''/api/articles/7''
        \<lparr>method = DELETE, payload = Undefined, timeoutMs = None, authToken = Some ''t''\<rparr>
      = Inr \<lparr>data = Bool True, meta = Undefined, error = Undefined,
             success = True, status = 204\<rparr>"
  using apiRequest_delete
    [of "\<lparr>method = DELETE, payload = Undefined, timeoutMs = None, authToken = Some ''t''\<rparr>"
        "always \<lparr>latency = 40, outcome = Resolved
           \<lparr>r_status = 204, r_statusText = ''No Content'',
            r_json = Inl (JsError ''SyntaxError'' ''Unexpected end of JSON input'')\<rparr>\<rparr>"
        "''/api/articles/7''"
        "\<lparr>r_status = 204, r_statusText = ''No Content'',
          r_json = Inl (JsError ''SyntaxError'' ''Unexpected end of JSON input'')\<rparr>"
        "Inr (Obj [(''error'', Str ''ignored'')])"]
  by (simp add: always_def apiWithTimeout_def setTimeout_delay_def timeout_of_def ok_def)

section \<open>apiRequest: timeouts and exceptions\<close>

text \<open>
  An exception that leaves the \<open>try\<close> block is handled by the \<open>catch\<close> block.
\<close>

lemma apiRequest_caught:
  assumes "apiRequest_try fetch url options = Inl e"
  shows "apiRequest fetch url options = apiRequest_catch e"
  using assms by (simp add: apiRequest_def)

text \<open>
  C4, as amended. When the call has not settled by the time the timer fires (the delay
  is \<open>timeoutMs\<close>, 8000 ms when none is given), the timer aborts it: \<open>apiWithTimeout\<close>
  rejects with the abort exception, and \<open>apiRequest\<close> returns the failure envelope with
  status 408 and the error name \<open>TimeoutError\<close>. A call that settles earlier keeps its
  own outcome. The timeout is recognised by the name \<open>AbortError\<close> of the caught
  exception and by nothing else: an exception of that name thrown by the call itself, or
  by \<open>response.json()\<close>, before the timer fires gives the same envelope, and an exception
  of any other name gives status 500 and the name \<open>NetworkError\<close>.
\<close>

theorem apiRequest_timeout:
  assumes "fetch url (request_init options) = call"
    and "delay = setTimeout_delay (case timeoutMs options of None \<Rightarrow> 8000 | Some t \<Rightarrow> t)"
  shows "(delay \<le> latency call \<longrightarrow>
            apiWithTimeout fetch url (request_init options) (timeout_of options)
              = Rejected AbortError
            \<and> apiRequest fetch url options =
                Inr \<lparr>data = Undefined, meta = Undefined,
                     error = Obj [(''status'', Num 408), (''name'', Str ''TimeoutError''),
                                  (''message'', Str ''The request timed out. Please try again.'')],
                     success = False, status = 408\<rparr>)
         \<and> (latency call < delay \<longrightarrow>
              apiWithTimeout fetch url (request_init options) (timeout_of options)
                = outcome call)
         \<and> (latency call < delay
              \<and> (outcome call = Rejected e
                  \<or> (\<exists>response. outcome call = Resolved response
                        \<and> method options \<noteq> DELETE \<and> r_json response = Inl e))
              \<and> name_of e = Inr (Str ''AbortError'') \<longrightarrow>
              apiRequest fetch url options =
                Inr \<lparr>data = Undefined, meta = Undefined,
                     error = Obj [(''status'', Num 408), (''name'', Str ''TimeoutError''),
                                  (''message'', Str ''The request timed out. Please try again.'')],
                     success = False, status = 408\<rparr>)
         \<and> (latency call < delay
              \<and> (outcome call = Rejected e
                  \<or> (\<exists>response. outcome call = Resolved response
                        \<and> method options \<noteq> DELETE \<and> r_json response = Inl e))
              \<and> name_of e = Inr n \<and> n \<noteq> Str ''AbortError'' \<longrightarrow>
              apiRequest fetch url options =
                Inr \<lparr>data = Undefined, meta = Undefined,
                     error = Obj [(''status'', Num 500), (''name'', Str ''NetworkError''),
                                  (''message'',
                                   Str (case e of JsError k m \<Rightarrow> m
                                        | NonError v \<Rightarrow> ''Something went wrong''))],
                     success = False, status = 500\<rparr>)"
proof -
  have d: "delay = setTimeout_delay (timeout_of options)"
    using assms(2) by (simp add: timeout_of_def)
  have a: "delay \<le> latency call \<longrightarrow>
      apiWithTimeout fetch url (request_init options) (timeout_of options) = Rejected AbortError
      \<and> apiRequest fetch url options =
          Inr \<lparr>data = Undefined, meta = Undefined,
               error = Obj [(''status'', Num 408), (''name'', Str ''TimeoutError''),
                            (''message'', Str ''The request timed out. Please try again.'')],
               success = False, status = 408\<rparr>"
    using assms(1) d
    by (simp add: apiRequest_def apiRequest_try_def apiRequest_catch_def apiWithTimeout_def
        AbortError_def failure_envelope_def error_object_def)
  have b: "latency call < delay \<longrightarrow>
      apiWithTimeout fetch url (request_init options) (timeout_of options) = outcome call"
    using assms(1) d by (simp add: apiWithTimeout_def)
  have caught: "apiRequest fetch url options = apiRequest_catch e"
    if "latency call < delay"
      and "outcome call = Rejected e
           \<or> (\<exists>response. outcome call = Resolved response
                 \<and> method options \<noteq> DELETE \<and> r_json response = Inl e)"
  proof (rule apiRequest_caught)
    from that b show "apiRequest_try fetch url options = Inl e"
      by (auto simp: apiRequest_try_def on_response_def)
  qed
  have m: "message_of e = (case e of JsError k m \<Rightarrow> m
                           | NonError v \<Rightarrow> ''Something went wrong'')"
    by (cases e) simp_all
  have c: "latency call < delay
      \<and> (outcome call = Rejected e
          \<or> (\<exists>response. outcome call = Resolved response
                \<and> method options \<noteq> DELETE \<and> r_json response = Inl e))
      \<and> name_of e = Inr (Str ''AbortError'') \<longrightarrow>
      apiRequest fetch url options =
        Inr \<lparr>data = Undefined, meta = Undefined,
             error = Obj [(''status'', Num 408), (''name'', Str ''TimeoutError''),
                          (''message'', Str ''The request timed out. Please try again.'')],
             success = False, status = 408\<rparr>"
    using caught by (simp add: apiRequest_catch_def failure_envelope_def error_object_def)
  have e: "latency call < delay
      \<and> (outcome call = Rejected e
          \<or> (\<exists>response. outcome call = Resolved response
                \<and> method options \<noteq> DELETE \<and> r_json response = Inl e))
      \<and> name_of e = Inr n \<and> n \<noteq> Str ''AbortError'' \<longrightarrow>
      apiRequest fetch url options =
        Inr \<lparr>data = Undefined, meta = Undefined,
             error = Obj [(''status'', Num 500), (''name'', Str ''NetworkError''),
                          (''message'',
                           Str (case e of JsError k m \<Rightarrow> m
                                | NonError v \<Rightarrow> ''Something went wrong''))],
             success = False, status = 500\<rparr>"
    using caught m by (simp add: apiRequest_catch_def failure_envelope_def error_object_def)
  from a b c e show ?thesis by (intro conjI)
qed

theorem apiRequest_timeout_witness:
  "apiRequest
     (always \<lparr>latency = 2500, outcome = Resolved
        \<lparr>r_status = 200, r_statusText = ''OK'', r_json = Inr (Obj [])\<rparr>\<rparr>)
     ''/api/slow''
     \<lparr>method = GET, payload = Undefined, timeoutMs = Some 1, authToken = None\<rparr>
   = Inr \<lparr>data = Undefined, meta = Undefined,
          error = Obj [(''status'', Num 408), (''name'', Str ''TimeoutError''),
                       (''message'', Str ''The request timed out. Please try again.'')],
          success = False, status = 408\<rparr>
   \<and> apiRequest
       (always \<lparr>latency = 8000, outcome = Resolved
          \<lparr>r_status = 200, r_statusText = ''OK'', r_json = Inr (Obj [])\<rparr>\<rparr>)
       ''/api/slow''
       \<lparr>method = GET, payload = Undefined, timeoutMs = None, authToken = None\<rparr>
     = Inr \<lparr>data = Undefined, meta = Undefined,
            error = Obj [(''status'', Num 408), (''name'', Str ''TimeoutError''),
                         (''message'', Str ''The request timed out. Please try again.'')],
            success = False, status = 408\<rparr>
   \<and> apiWithTimeout
       (always \<lparr>latency = 7999, outcome = Resolved
          \<lparr>r_status = 200, r_statusText = ''OK'', r_json = Inr (Obj [])\<rparr>\<rparr>)
       ''/api/slow''
       (request_init \<lparr>method = GET, payload = Undefined, timeoutMs = None, authToken = None\<rparr>)
       (timeout_of \<lparr>method = GET, payload = Undefined, timeoutMs = None, authToken = None\<rparr>)
     = Resolved \<lparr>r_status = 200, r_statusText = ''OK'', r_json = Inr (Obj [])\<rparr>
   \<and> apiRequest
       (always \<lparr>latency = 15, outcome = Resolved
          \<lparr>r_status = 200, r_statusText = ''OK'',
           r_json = Inl (JsError ''AbortError'' ''The operation was aborted.'')\<rparr>\<rparr>)
       ''/api/home-page''
       \<lparr>method = GET, payload = Undefined, timeoutMs = None, authToken = None\<rparr>
     = Inr \<lparr>data = Undefined, meta = Undefined,
            error = Obj [(''status'', Num 408), (''name'', Str ''TimeoutError''),
                         (''message'', Str ''The request timed out. Please try again.'')],
            success = False, status = 408\<rparr>
   \<and> apiRequest
       (always \<lparr>latency = 15, outcome = Rejected (JsError ''TypeError'' ''fetch failed'')\<rparr>)
       ''/api/home-page''
       \<lparr>method = GET, payload = Undefined, timeoutMs = None, authToken = None\<rparr>
     = Inr \<lparr>data = Undefined, meta = Undefined,
            error = Obj [(''status'', Num 500), (''name'', Str ''NetworkError''),
                         (''message'', Str ''fetch failed'')],
            success = False, status = 500\<rparr>"
  using
    apiRequest_timeout [OF refl refl, where
      fetch = "always \<lparr>latency = 2500, outcome = Resolved
        \<lparr>r_status = 200, r_statusText = ''OK'', r_json = Inr (Obj [])\<rparr>\<rparr>"
      and url = "''/api/slow''"
      and options = "\<lparr>method = GET, payload = Undefined, timeoutMs = Some 1, authToken = None\<rparr>"]
    apiRequest_timeout [OF refl refl, where
      fetch = "always \<lparr>latency = 8000, outcome = Resolved
        \<lparr>r_status = 200, r_statusText = ''OK'', r_json = Inr (Obj [])\<rparr>\<rparr>"
      and url = "''/api/slow''"
      and options = "\<lparr>method = GET, payload = Undefined, timeoutMs = None, authToken = None\<rparr>"]
    apiRequest_timeout [OF refl refl, where
      fetch = "always \<lparr>latency = 7999, outcome = Resolved
        \<lparr>r_status = 200, r_statusText = ''OK'', r_json = Inr (Obj [])\<rparr>\<rparr>"
      and url = "''/api/slow''"
      and options = "\<lparr>method = GET, payload = Undefined, timeoutMs = None, authToken = None\<rparr>"]
    apiRequest_timeout [OF refl refl, where
      fetch = "always \<lparr>latency = 15, outcome = Resolved
        \<lparr>r_status = 200, r_statusText = ''OK'',
         r_json = Inl (JsError ''AbortError'' ''The operation was aborted.'')\<rparr>\<rparr>"
      and url = "''/api/home-page''"
      and options = "\<lparr>method = GET, payload = Undefined, timeoutMs = None, authToken = None\<rparr>"
      and e = "JsError ''AbortError'' ''The operation was aborted.''"]
    apiRequest_timeout [OF refl refl, where
      fetch = "always \<lparr>latency = 15, outcome = Rejected (JsError ''TypeError'' ''fetch failed'')\<rparr>"
      and url = "''/api/home-page''"
      and options = "\<lparr>method = GET, payload = Undefined, timeoutMs = None, authToken = None\<rparr>"
      and e = "JsError ''TypeError'' ''fetch failed''" and n = "Str ''TypeError''"]
  by (simp add: always_def setTimeout_delay_def)

text \<open>
  C4 as stated fails: the timeout envelope does not tell the timer's abort from another.
  A call that rejects after 5 ms with an exception named \<open>AbortError\<close>, long before the
  timer of 8000 ms, gives the same envelope with status 408.
\<close>

theorem apiRequest_timeout_counterexample:
  "latency (always \<lparr>latency = 5, outcome = Rejected
              (JsError ''AbortError'' ''The user aborted a request.'')\<rparr>
            ''/api/home-page''
            (request_init \<lparr>method = GET, payload = Undefined, timeoutMs = None,
                            authToken = None\<rparr>))
     < setTimeout_delay
         (timeout_of \<lparr>method = GET, payload = Undefined, timeoutMs = None, authToken = None\<rparr>)
   \<and> apiWithTimeout
       (always \<lparr>latency = 5, outcome = Rejected
          (JsError ''AbortError'' ''The user aborted a request.'')\<rparr>)
       ''/api/home-page''
       (request_init \<lparr>method = GET, payload = Undefined, timeoutMs = None, authToken = None\<rparr>)
       (timeout_of \<lparr>method = GET, payload = Undefined, timeoutMs = None, authToken = None\<rparr>)
     = Rejected (JsError ''AbortError'' ''The user aborted a request.'')
   \<and> apiRequest
       (always \<lparr>latency = 5, outcome = Rejected
          (JsError ''AbortError'' ''The user aborted a request.'')\<rparr>)
       ''/api/home-page''
       \<lparr>method = GET, payload = Undefined, timeoutMs = None, authToken = None\<rparr>
     = Inr \<lparr>data = Undefined, meta = Undefined,
            error = Obj [(''status'', Num 408), (''name'', Str ''TimeoutError''),
                         (''message'', Str ''The request timed out. Please try again.'')],
            success = False, status = 408\<rparr>"
  by (simp add: apiRequest_def apiRequest_try_def apiRequest_catch_def apiWithTimeout_def
      setTimeout_delay_def timeout_of_def always_def failure_envelope_def error_object_def)

text \<open>
  What the \<open>try\<close> block gives on a response: every envelope it returns keeps the two
  invariants, with the response's own status.
\<close>

lemma on_response_invariant:
  assumes "on_response m response = Inr env"
  shows "(success env \<longrightarrow> \<not> nullish (data env) \<and> error env = Undefined)
         \<and> (\<not> success env \<longrightarrow> \<not> nullish (error env) \<and> data env = Undefined)
         \<and> status env = r_status response"
proof (cases "m = DELETE")
  case True
  with assms show ?thesis
    by (auto simp: on_response_def success_envelope_def failure_envelope_def error_object_def
        split: if_splits)
next
  case False
  with assms obtain d where d: "r_json response = Inr d"
    by (auto simp: on_response_def split: sum.splits)
  show ?thesis
  proof (cases "ok response")
    case True
    with assms False d obtain ddata dmeta where
      "member_of d ''data'' = Inr ddata" and
      "env = success_envelope (if truthy ddata then ddata else d)
                              (if truthy dmeta then dmeta else Undefined) (r_status response)"
      by (auto simp: on_response_def split: sum.splits)
    then show ?thesis
      by (auto simp: success_envelope_def dest: member_of_Inr_not_nullish truthy_not_nullish)
  next
    case nok: False
    with assms False d show ?thesis
      by (auto simp: on_response_def failure_envelope_def error_object_def
          split: sum.splits if_splits dest: truthy_not_nullish)
  qed
qed

lemma apiRequest_catch_invariant:
  assumes "apiRequest_catch e = Inr env"
  shows "\<not> success env \<and> \<not> nullish (error env) \<and> data env = Undefined
         \<and> (status env = 408 \<or> status env = 500)"
  using assms
  by (auto simp: apiRequest_catch_def failure_envelope_def error_object_def
      split: sum.splits if_splits)


text \<open>
  C5. Every envelope \<open>apiRequest\<close> returns has exactly one of \<open>data\<close> and \<open>error\<close>, as
  \<open>success\<close> says: \<open>data\<close> and no \<open>error\<close> when it is true, \<open>error\<close> and no \<open>data\<close> when
  it is false. Its \<open>status\<close> is the status of the response when there is one, or else
  408 or 500.
\<close>

theorem apiRequest_envelope_invariant:
  assumes "apiRequest fetch url options = Inr env"
  shows "(success env \<longrightarrow> \<not> nullish (data env) \<and> error env = Undefined)
         \<and> (\<not> success env \<longrightarrow> \<not> nullish (error env) \<and> data env = Undefined)
         \<and> (case apiWithTimeout fetch url (request_init options) (timeout_of options) of
               Resolved response \<Rightarrow>
                 status env = r_status response \<or> status env = 408 \<or> status env = 500
             | Rejected e \<Rightarrow> status env = 408 \<or> status env = 500)"
proof (cases "apiRequest_try fetch url options")
  case (Inr env')
  with assms have env: "env' = env" by (simp add: apiRequest_def)
  from Inr obtain response where
    r: "apiWithTimeout fetch url (request_init options) (timeout_of options) = Resolved response"
    and "on_response (method options) response = Inr env'"
    by (auto simp: apiRequest_try_def split: settled.splits)
  with env have "on_response (method options) response = Inr env" by simp
  from on_response_invariant [OF this] r show ?thesis by simp
next
  case (Inl e)
  with assms have "apiRequest_catch e = Inr env" by (simp add: apiRequest_def)
  from apiRequest_catch_invariant [OF this] show ?thesis
    by (auto split: settled.splits)
qed

theorem apiRequest_envelope_invariant_witness:
  "apiRequest
     (always \<lparr>latency = 60, outcome = Resolved
        \<lparr>r_status = 201, r_statusText = ''Created'', r_json = Inr (Num 0)\<rparr>\<rparr>)
     ''/api/counters''
     \<lparr>method = POST, payload = Undefined, timeoutMs = None, authToken = None\<rparr>
   = Inr \<lparr>data = Num 0, meta = Undefined, error = Undefined, success = True, status = 201\<rparr>
   \<and> \<not> nullish (data \<lparr>data = Num 0, meta = Undefined, error = Undefined, success = True,
                      status = 201\<rparr>)
   \<and> error \<lparr>data = Num 0, meta = Undefined, error = Undefined, success = True, status = 201\<rparr>
       = Undefined"
proof -
  have r: "apiRequest
     (always \<lparr>latency = 60, outcome = Resolved
        \<lparr>r_status = 201, r_statusText = ''Created'', r_json = Inr (Num 0)\<rparr>\<rparr>)
     ''/api/counters''
     \<lparr>method = POST, payload = Undefined, timeoutMs = None, authToken = None\<rparr>
   = Inr \<lparr>data = Num 0, meta = Undefined, error = Undefined, success = True, status = 201\<rparr>"
    by (simp add: apiRequest_def apiRequest_try_def on_response_def always_def
        apiWithTimeout_def setTimeout_delay_def timeout_of_def ok_def success_envelope_def)
  from apiRequest_envelope_invariant [OF r] r show ?thesis
    by (simp del: nullish.simps)
qed







section \<open>handleApiError and validateApiResponse: the four endings\<close>

text \<open>
  C9, as amended. \<open>handleApiError\<close> ends in exactly one way. An absent envelope (\<open>null\<close>
  or \<open>undefined\<close>) throws \<open>Failed to load\<close> followed by the resource label (\<open>resource\<close>
  when there is none). An envelope whose \<open>error.status\<close> is 404 calls \<open>notFound()\<close> and
  does nothing else. Any other envelope that is not successful or whose \<open>data\<close> is not
  truthy (absent, or present and falsy) throws with the envelope's error message when that
  is truthy, with the generic message otherwise. Any other envelope, successful and with
  truthy \<open>data\<close>, returns.
\<close>

theorem handleApiError_endings:
  "handleApiError IsNull resourceName = Throws (JsError ''Error'' (failed_to_load resourceName))
   \<and> handleApiError IsUndefined resourceName
       = Throws (JsError ''Error'' (failed_to_load resourceName))
   \<and> (opt_member (error env) ''status'' = Num 404 \<longrightarrow>
        handleApiError (Present env) resourceName = NotFound)
   \<and> (opt_member (error env) ''status'' \<noteq> Num 404
        \<and> (\<not> success env \<or> \<not> truthy (data env)) \<longrightarrow>
        handleApiError (Present env) resourceName
          = Throws (JsError ''Error''
              (if truthy (opt_member (error env) ''message'')
               then to_string (opt_member (error env) ''message'')
               else failed_to_load resourceName)))
   \<and> (opt_member (error env) ''status'' \<noteq> Num 404 \<and> success env \<and> truthy (data env) \<longrightarrow>
        handleApiError (Present env) resourceName = Returns ())"
  by (simp add: handleApiError_def new_Error_def or_else_def)

theorem handleApiError_endings_witness:
  "handleApiError IsUndefined (Some ''home page'')
     = Throws (JsError ''Error'' ''Failed to load home page'')
   \<and> handleApiError
        (Present \<lparr>data = Undefined, meta = Undefined,
                  error = Obj [(''status'', Num 404), (''name'', Str ''NotFoundError''),
                               (''message'', Str ''not found'')],
                  success = False, status = 404\<rparr>)
        (Some ''home page'')
      = NotFound
   \<and> handleApiError
        (Present \<lparr>data = Undefined, meta = Undefined,
                  error = Obj [(''status'', Num 403), (''name'', Str ''ForbiddenError''),
                               (''message'', Str ''Forbidden'')],
                  success = False, status = 403\<rparr>)
        (Some ''home page'')
      = Throws (JsError ''Error'' ''Forbidden'')
   \<and> handleApiError
        (Present \<lparr>data = Obj [(''blocks'', Arr [])], meta = Undefined, error = Undefined,
                  success = True, status = 200\<rparr>)
        (Some ''home page'')
      = Returns ()"
  using handleApiError_endings [of "Some ''home page''"
      "\<lparr>data = Undefined, meta = Undefined,
        error = Obj [(''status'', Num 404), (''name'', Str ''NotFoundError''),
                     (''message'', Str ''not found'')],
        success = False, status = 404\<rparr>"]
    handleApiError_endings [of "Some ''home page''"
      "\<lparr>data = Undefined, meta = Undefined,
        error = Obj [(''status'', Num 403), (''name'', Str ''ForbiddenError''),
                     (''message'', Str ''Forbidden'')],
        success = False, status = 403\<rparr>"]
    handleApiError_endings [of "Some ''home page''"
      "\<lparr>data = Obj [(''blocks'', Arr [])], meta = Undefined, error = Undefined,
        success = True, status = 200\<rparr>"]
  by (simp add: failed_to_load_def)

text \<open>
  C9 as stated fails: the envelope \<open>{success: true, status: 200, data: false}\<close> is
  successful and has data, and \<open>handleApiError\<close> throws instead of returning.
\<close>

theorem handleApiError_endings_counterexample:
  "success \<lparr>data = Bool False, meta = Undefined, error = Undefined, success = True,
            status = 200\<rparr>
   \<and> data \<lparr>data = Bool False, meta = Undefined, error = Undefined, success = True,
           status = 200\<rparr> \<noteq> Undefined
   \<and> handleApiError
        (Present \<lparr>data = Bool False, meta = Undefined, error = Undefined, success = True,
                  status = 200\<rparr>)
        None
      = Throws (JsError ''Error'' ''Failed to load resource'')
   \<and> handleApiError
        (Present \<lparr>data = Bool False, meta = Undefined, error = Undefined, success = True,
                  status = 200\<rparr>)
        None
      \<noteq> Returns ()"
  by (simp add: handleApiError_def new_Error_def or_else_def failed_to_load_def)

text \<open>
  C8, as amended. \<open>validateApiResponse\<close> returns exactly the envelope's \<open>data\<close> whenever
  the envelope is successful, its \<open>data\<close> is truthy and its \<open>error.status\<close> is not 404.
  In every other case it throws or calls \<open>notFound()\<close> and does not return. Whatever it
  returns is truthy, hence present.
\<close>

theorem validateApiResponse_returns:
  "(success env \<and> truthy (data env) \<and> opt_member (error env) ''status'' \<noteq> Num 404 \<longrightarrow>
      validateApiResponse (Present env) resourceName = Returns (data env))
   \<and> (\<not> (\<exists>env'. d = Present env' \<and> success env' \<and> truthy (data env')
               \<and> opt_member (error env') ''status'' \<noteq> Num 404) \<longrightarrow>
        validateApiResponse d resourceName = NotFound
        \<or> (\<exists>e. validateApiResponse d resourceName = Throws e))
   \<and> (validateApiResponse d resourceName = Returns v \<longrightarrow>
        truthy v \<and> v \<noteq> Undefined \<and> v \<noteq> Null)"
proof -
  have a: "success env \<and> truthy (data env) \<and> opt_member (error env) ''status'' \<noteq> Num 404
    \<longrightarrow> validateApiResponse (Present env) resourceName = Returns (data env)"
    by (simp add: validateApiResponse_def handleApiError_def)
  have b: "\<not> (\<exists>env'. d = Present env' \<and> success env' \<and> truthy (data env')
               \<and> opt_member (error env') ''status'' \<noteq> Num 404)
    \<longrightarrow> validateApiResponse d resourceName = NotFound
        \<or> (\<exists>e. validateApiResponse d resourceName = Throws e)"
    by (cases d) (auto simp: validateApiResponse_def handleApiError_def)
  have "validateApiResponse d resourceName = Returns v \<longrightarrow> truthy v"
    by (cases d)
       (auto simp: validateApiResponse_def handleApiError_def split: if_splits)
  then have c: "validateApiResponse d resourceName = Returns v
    \<longrightarrow> truthy v \<and> v \<noteq> Undefined \<and> v \<noteq> Null"
    by auto
  from a b c show ?thesis by blast
qed

theorem validateApiResponse_returns_witness:
  "success \<lparr>data = Obj [(''blocks'', Arr [])], meta = Undefined, error = Undefined,
            success = True, status = 200\<rparr>
   \<and> truthy (Obj [(''blocks'', Arr [])])
   \<and> validateApiResponse
        (Present \<lparr>data = Obj [(''blocks'', Arr [])], meta = Undefined, error = Undefined,
                  success = True, status = 200\<rparr>)
        (Some ''home page'')
      = Returns (Obj [(''blocks'', Arr [])])
   \<and> (validateApiResponse IsNull (Some ''home page'') = NotFound
        \<or> (\<exists>e. validateApiResponse IsNull (Some ''home page'') = Throws e))"
  using validateApiResponse_returns
    [of "\<lparr>data = Obj [(''blocks'', Arr [])], meta = Undefined, error = Undefined,
          success = True, status = 200\<rparr>"
        "Some ''home page''" IsNull]
  by simp

text \<open>
  C8 as stated fails: the envelope \<open>{success: true, status: 200, data: 0}\<close> is successful
  and its \<open>data\<close> is present, and \<open>validateApiResponse\<close> throws instead of returning it.
\<close>

theorem validateApiResponse_counterexample:
  "success \<lparr>data = Num 0, meta = Undefined, error = Undefined, success = True, status = 200\<rparr>
   \<and> data \<lparr>data = Num 0, meta = Undefined, error = Undefined, success = True, status = 200\<rparr>
       \<noteq> Undefined
   \<and> validateApiResponse
        (Present \<lparr>data = Num 0, meta = Undefined, error = Undefined, success = True,
                  status = 200\<rparr>)
        (Some ''counter'')
      = Throws (JsError ''Error'' ''Failed to load counter'')
   \<and> validateApiResponse
        (Present \<lparr>data = Num 0, meta = Undefined, error = Undefined, success = True,
                  status = 200\<rparr>)
        (Some ''counter'')
      \<noteq> Returns (Num 0)"
  by (simp add: validateApiResponse_def handleApiError_def new_Error_def or_else_def
      failed_to_load_def)

text \<open>
  C10. A successful envelope whose \<open>data\<close> is falsy (\<open>0\<close>, the empty string, \<open>false\<close>,
  also \<open>null\<close> or absent) never passes: \<open>handleApiError\<close> does not return, and neither
  does \<open>validateApiResponse\<close>. Both throw the same \<open>Error\<close>, unless the envelope also
  carries an error of status 404, which a successful envelope does not. Only a truthy
  \<open>data\<close> lets \<open>handleApiError\<close> return.
\<close>

theorem handleApiError_falsy_data:
  assumes "success env" and "\<not> truthy (data env)"
  shows "handleApiError (Present env) resourceName \<noteq> Returns ()
         \<and> (\<forall>v. validateApiResponse (Present env) resourceName \<noteq> Returns v)
         \<and> (opt_member (error env) ''status'' \<noteq> Num 404 \<longrightarrow>
              handleApiError (Present env) resourceName
                = Throws (new_Error (or_else (opt_member (error env) ''message'')
                                        (Str (failed_to_load resourceName))))
              \<and> validateApiResponse (Present env) resourceName
                = Throws (new_Error (or_else (opt_member (error env) ''message'')
                                        (Str (failed_to_load resourceName)))))
         \<and> (\<forall>env'. handleApiError (Present env') resourceName = Returns () \<longrightarrow>
              truthy (data env'))"
  using assms
  by (auto simp: validateApiResponse_def handleApiError_def split: if_splits)

theorem handleApiError_falsy_data_witness:
  "success \<lparr>data = Str [], meta = Undefined, error = Undefined, success = True, status = 200\<rparr>
   \<and> \<not> truthy (Str [])
   \<and> handleApiError
        (Present \<lparr>data = Str [], meta = Undefined, error = Undefined, success = True,
                  status = 200\<rparr>)
        (Some ''summary'')
      = Throws (JsError ''Error'' ''Failed to load summary'')
   \<and> validateApiResponse
        (Present \<lparr>data = Str [], meta = Undefined, error = Undefined, success = True,
                  status = 200\<rparr>)
        (Some ''summary'')
      = Throws (JsError ''Error'' ''Failed to load summary'')"
  using handleApiError_falsy_data
    [of "\<lparr>data = Str [], meta = Undefined, error = Undefined, success = True, status = 200\<rparr>"
        "Some ''summary''"]
  by (simp add: new_Error_def or_else_def failed_to_load_def)

end
